theory Spec2Isabelle
  imports Main "HOL-Library.Sublist"
begin

section \<open>The CSI snapshot webhook controller (pkg/operator/webhookdeployment/webhook.go)\<close>

text \<open>
  A shallow embedding of \<^verbatim>\<open>sync\<close>, \<^verbatim>\<open>getDeployment\<close> and \<^verbatim>\<open>getWebhookConfig\<close>.
  The controller talks to the cluster through interfaces (operator client, node lister,
  kube client) and through helpers of library-go; their answers are the fields of the
  record \<open>world\<close>, and every call that \<^verbatim>\<open>sync\<close> makes on them is written to a trace,
  in the order of the source.
\<close>

subsection \<open>Go strings and numbers\<close>

text \<open>
  \<^verbatim>\<open>strings.ReplaceAll(s, old, new)\<close>: the non-overlapping occurrences of \<open>old\<close>,
  found from left to right, are replaced by \<open>new\<close>; replaced text is not scanned again.
  Both calls of the source pass a non-empty constant for \<open>old\<close>. (For an empty \<open>old\<close>
  Go puts \<open>new\<close> before every UTF-8 sequence and at the end; the first branch below is
  that behaviour on single-byte text.)
\<close>

function ReplaceAll :: "string \<Rightarrow> string \<Rightarrow> string \<Rightarrow> string" where
  "ReplaceAll [] old new = (if old = [] then new else [])"
| "ReplaceAll (c # cs) old new =
     (if old = [] then new @ c # ReplaceAll cs old new
      else if prefix old (c # cs) then new @ ReplaceAll (drop (length old) (c # cs)) old new
      else c # ReplaceAll cs old new)"
  by pat_completeness auto
termination
  by (relation "measure (\<lambda>(s, old, new). length s)") auto

text \<open>
  \<^verbatim>\<open>strconv.Itoa\<close> and the verb \<^verbatim>\<open>%d\<close> of \<^verbatim>\<open>fmt.Sprintf\<close>: the decimal digits,
  with a minus sign for a negative number.
\<close>

function decimal :: "nat \<Rightarrow> string" where
  "decimal n =
     (if n < 10 then [''0123456789'' ! n]
      else decimal (n div 10) @ [''0123456789'' ! (n mod 10)])"
  by pat_completeness auto
termination
  by (relation "measure id") auto

declare decimal.simps [simp del]

definition Itoa :: "int \<Rightarrow> string" where
  "Itoa i = (if i < 0 then CHR ''-'' # decimal (nat (- i)) else decimal (nat i))"

subsection \<open>Errors and results\<close>

text \<open>
  A Go \<^verbatim>\<open>error\<close> value. \<open>NotFound\<close> is an API status error for which
  \<^verbatim>\<open>apierrors.IsNotFound\<close> holds; \<open>Errorf fmt arg\<close> is \<^verbatim>\<open>fmt.Errorf(fmt, arg)\<close>
  with its format and argument kept apart (the verb \<^verbatim>\<open>%q\<close> is not expanded).
\<close>

datatype error = NotFound string | OtherError string | Errorf string string

fun IsNotFound :: "error \<Rightarrow> bool" where
  "IsNotFound (NotFound m) = True"
| "IsNotFound e = False"

text \<open>What a function returning \<^verbatim>\<open>(*T, error)\<close> can do: return a value, return an error, or panic.\<close>

datatype 'a result = Ok 'a | Err error | Panicked

subsection \<open>API objects\<close>

type_synonym ManagementState = string
type_synonym LogLevel = string
type_synonym ConditionStatus = string

definition Managed :: ManagementState where
  "Managed = ''Managed''"

definition ConditionTrue :: ConditionStatus where
  "ConditionTrue = ''True''"

definition ConditionFalse :: ConditionStatus where
  "ConditionFalse = ''False''"

definition OperatorStatusTypeAvailable :: string where
  "OperatorStatusTypeAvailable = ''Available''"

definition OperatorStatusTypeProgressing :: string where
  "OperatorStatusTypeProgressing = ''Progressing''"

record OperatorSpec =
  ManagementState :: ManagementState
  LogLevel :: LogLevel

text \<open>A generation record: group, resource, namespace, name, last generation.\<close>

type_synonym GenerationStatus = "string \<times> string \<times> string \<times> string \<times> int"

record OperatorCondition =
  Type :: string
  Status :: ConditionStatus
  Reason :: string
  Message :: string

record OperatorStatus =
  Conditions :: "OperatorCondition list"
  Generations :: "GenerationStatus list"

record ObjectMeta =
  Name :: string
  Namespace :: string
  Generation :: int
  Annotations :: "string \<rightharpoonup> string"

text \<open>
  Of a Deployment the controller reads and writes \<^verbatim>\<open>Spec.Replicas\<close> (a pointer: \<open>None\<close>
  is nil), \<^verbatim>\<open>Spec.Template.Spec.NodeSelector\<close>, the generation and three status fields.
  \<open>Containers\<close> is \<^verbatim>\<open>Spec.Template.Spec.Containers\<close>, where the decoder puts the image
  and the arguments of the template; the controller does not read it.
\<close>

record Container =
  ContainerName :: string
  Image :: string
  Args :: "string list"

record DeploymentSpec =
  Replicas :: "int option"
  NodeSelector :: "string \<rightharpoonup> string"
  Containers :: "Container list"

record DeploymentStatus =
  ObservedGeneration :: int
  UpdatedReplicas :: int
  AvailableReplicas :: int

record Deployment =
  d_ObjectMeta :: ObjectMeta
  d_Spec :: DeploymentSpec
  d_Status :: DeploymentStatus

record RuleWithOperations =
  Operations :: "string list"
  APIGroups :: "string list"
  APIVersions :: "string list"
  Resources :: "string list"

record ValidatingWebhook =
  wh_Name :: string
  Rules :: "RuleWithOperations list"

record ValidatingWebhookConfiguration =
  w_ObjectMeta :: ObjectMeta
  Webhooks :: "ValidatingWebhook list"

text \<open>What \<^verbatim>\<open>runtime.Decode\<close> returns: the registered kind the controller expects, or another one.\<close>

datatype RuntimeObject =
  ValidatingWebhookConfigurationObject ValidatingWebhookConfiguration
| OtherObject string

record Node =
  NodeName :: string
  Labels :: "string \<rightharpoonup> string"

subsection \<open>The controller and its collaborators\<close>

record WorkQueue =
  queueName :: string
  items :: "string list"

definition NewNamedRateLimitingQueue :: "string \<Rightarrow> WorkQueue" where
  "NewNamedRateLimitingQueue name = \<lparr>queueName = name, items = []\<rparr>"

text \<open>
  The fields \<^verbatim>\<open>client\<close>, \<^verbatim>\<open>kubeClient\<close>, \<^verbatim>\<open>nodeLister\<close> and \<^verbatim>\<open>eventRecorder\<close> are
  interfaces; what they answer is in \<open>world\<close>.
\<close>

record csiSnapshotWebhookController =
  queue :: WorkQueue
  csiSnapshotWebhookImage :: string

definition WebhookControllerName :: string where
  "WebhookControllerName = ''CSISnapshotWebhookController''"

definition deploymentAsset :: string where
  "deploymentAsset = ''webhook_deployment.yaml''"

definition webhookAsset :: string where
  "webhookAsset = ''webhook_config.yaml''"

text \<open>
  The collaborators. \<open>MustAsset\<close> is the asset table of pkg/generated, which holds both
  asset names. \<open>ReadDeploymentV1OrDie\<close> answers \<open>None\<close> where the library panics.
  \<open>UpdateStatus\<close> gets the two conditions of \<^verbatim>\<open>UpdateConditionFn\<close> and the two objects
  that \<^verbatim>\<open>updateGenerationFn\<close> captures; \<open>None\<close> is a nil error.
\<close>

record world =
  GetOperatorState :: "error + (OperatorSpec \<times> OperatorStatus)"
  MustAsset :: "string \<Rightarrow> string"
  ValidLogLevel :: "LogLevel \<Rightarrow> bool"
  LogLevelToVerbosity :: "LogLevel \<Rightarrow> int"
  ReadDeploymentV1OrDie :: "string \<Rightarrow> Deployment option"
  nodeLister_List :: "(string \<rightharpoonup> string) \<Rightarrow> error + Node list"
  ExpectedDeploymentGeneration :: "Deployment \<Rightarrow> GenerationStatus list \<Rightarrow> int"
  ApplyDeployment :: "Deployment \<Rightarrow> int \<Rightarrow> error + Deployment"
  Decode :: "string \<Rightarrow> error + RuntimeObject"
  SetSpecHashAnnotation :: "ObjectMeta \<Rightarrow> ValidatingWebhook list \<Rightarrow> ObjectMeta"
  ExpectedValidatingWebhooksConfiguration :: "string \<Rightarrow> GenerationStatus list \<Rightarrow> int"
  ApplyValidatingWebhookConfiguration ::
    "ValidatingWebhookConfiguration \<Rightarrow> int \<Rightarrow> error + ValidatingWebhookConfiguration"
  UpdateStatus ::
    "OperatorCondition \<Rightarrow> OperatorCondition \<Rightarrow> Deployment \<Rightarrow> ValidatingWebhookConfiguration
      \<Rightarrow> error option"

text \<open>The calls that can be seen from outside, with their arguments.\<close>

datatype Call =
  GetOperatorStateCall
| ListCall "string \<rightharpoonup> string"
| ApplyDeploymentCall Deployment int
| ApplyValidatingWebhookConfigurationCall ValidatingWebhookConfiguration int
| UpdateStatusCall OperatorCondition OperatorCondition Deployment ValidatingWebhookConfiguration
| QueueCall string string

fun isQueueCall :: "Call \<Rightarrow> bool" where
  "isQueueCall (QueueCall m x) = True"
| "isQueueCall c = False"

fun isApplyDeploymentCall :: "Call \<Rightarrow> bool" where
  "isApplyDeploymentCall (ApplyDeploymentCall d g) = True"
| "isApplyDeploymentCall c = False"

fun isApplyCall :: "Call \<Rightarrow> bool" where
  "isApplyCall (ApplyDeploymentCall d g) = True"
| "isApplyCall (ApplyValidatingWebhookConfigurationCall h g) = True"
| "isApplyCall c = False"

fun isUpdateStatusCall :: "Call \<Rightarrow> bool" where
  "isUpdateStatusCall (UpdateStatusCall a p d h) = True"
| "isUpdateStatusCall c = False"

text \<open>How \<^verbatim>\<open>sync\<close> ends: it returns an error (\<open>None\<close> is nil) or panics.\<close>

datatype outcome = Return "error option" | Panic

subsection \<open>The functions of the source\<close>

definition NewCSISnapshotWebhookController :: "string \<Rightarrow> csiSnapshotWebhookController" where
  "NewCSISnapshotWebhookController img =
     \<lparr>queue = NewNamedRateLimitingQueue ''csi-snapshot-controller'',
      csiSnapshotWebhookImage = img\<rparr>"

definition getDeployment ::
  "csiSnapshotWebhookController \<Rightarrow> world \<Rightarrow> OperatorSpec \<Rightarrow> Deployment result" where
  "getDeployment c w opSpec =
     (let deploymentString = MustAsset w deploymentAsset;
          deploymentString =
            ReplaceAll deploymentString ''${WEBHOOK_IMAGE}'' (csiSnapshotWebhookImage c)
      in if \<not> ValidLogLevel w (LogLevel opSpec)
         then Err (Errorf ''logLevel %q is not a valid log level'' (LogLevel opSpec))
         else
           let logLevel = LogLevelToVerbosity w (LogLevel opSpec);
               deploymentString = ReplaceAll deploymentString ''${LOG_LEVEL}'' (Itoa logLevel)
           in (case ReadDeploymentV1OrDie w deploymentString of
                 None \<Rightarrow> Panicked
               | Some deployment \<Rightarrow> Ok deployment))"

definition getWebhookConfig :: "world \<Rightarrow> ValidatingWebhookConfiguration result" where
  "getWebhookConfig w =
     (let webhookBytes = MustAsset w webhookAsset
      in case Decode w webhookBytes of
           Inl err \<Rightarrow> Err err
         | Inr (OtherObject k) \<Rightarrow> Panicked
         | Inr (ValidatingWebhookConfigurationObject webhook) \<Rightarrow>
             Ok (webhook\<lparr>w_ObjectMeta :=
                   SetSpecHashAnnotation w (w_ObjectMeta webhook) (Webhooks webhook)\<rparr>))"

text \<open>
  Lines 119 to 123 of \<^verbatim>\<open>sync\<close>: \<^verbatim>\<open>replicas\<close> is 1, or 2 when there is more than one
  node, and \<^verbatim>\<open>deployment.Spec.Replicas\<close> points to it.
\<close>

definition withReplicas :: "Deployment \<Rightarrow> Node list \<Rightarrow> Deployment" where
  "withReplicas deployment nodes =
     (let replicas = (if length nodes > 1 then 2 else 1)
      in deployment\<lparr>d_Spec := (d_Spec deployment)\<lparr>Replicas := Some replicas\<rparr>\<rparr>)"

text \<open>Lines 144 to 153 of \<^verbatim>\<open>sync\<close>: the condition \<^verbatim>\<open>deploymentAvailable\<close>.\<close>

definition deploymentAvailable :: "Deployment \<Rightarrow> OperatorCondition" where
  "deploymentAvailable deployment =
     (if AvailableReplicas (d_Status deployment) > 0
      then \<lparr>Type = WebhookControllerName @ OperatorStatusTypeAvailable,
            Status = ConditionTrue, Reason = [], Message = []\<rparr>
      else \<lparr>Type = WebhookControllerName @ OperatorStatusTypeAvailable,
            Status = ConditionFalse, Reason = ''Deploying'',
            Message = ''Waiting for a validating webhook Deployment pod to start''\<rparr>)"

text \<open>Lines 156 to 175 of \<^verbatim>\<open>sync\<close>: the condition \<^verbatim>\<open>deploymentProgressing\<close>.\<close>

definition deploymentProgressing :: "Deployment \<Rightarrow> OperatorCondition" where
  "deploymentProgressing deployment =
     (if ObservedGeneration (d_Status deployment) \<noteq> Generation (d_ObjectMeta deployment)
      then \<lparr>Type = WebhookControllerName @ OperatorStatusTypeProgressing,
            Status = ConditionTrue, Reason = ''Deploying'',
            Message = ''desired generation '' @ Itoa (Generation (d_ObjectMeta deployment))
              @ '', current generation '' @ Itoa (ObservedGeneration (d_Status deployment))\<rparr>
      else (case Replicas (d_Spec deployment) of
              None \<Rightarrow> \<lparr>Type = WebhookControllerName @ OperatorStatusTypeProgressing,
                        Status = [], Reason = [], Message = []\<rparr>
            | Some replicas \<Rightarrow>
                if UpdatedReplicas (d_Status deployment) = replicas
                then \<lparr>Type = WebhookControllerName @ OperatorStatusTypeProgressing,
                      Status = ConditionFalse, Reason = [], Message = []\<rparr>
                else \<lparr>Type = WebhookControllerName @ OperatorStatusTypeProgressing,
                      Status = ConditionTrue, Reason = ''Deploying'',
                      Message = Itoa (UpdatedReplicas (d_Status deployment)) @ '' out of ''
                        @ Itoa replicas @ '' pods running''\<rparr>))"

text \<open>
  \<^verbatim>\<open>sync\<close>: the trace of calls and the way it ends. The variables keep the names of the
  source; \<open>deployment\<close> and \<open>webhookConfig\<close> are rebound where the source assigns them.
\<close>

definition sync :: "csiSnapshotWebhookController \<Rightarrow> world \<Rightarrow> Call list \<times> outcome" where
  "sync c w =
     (case GetOperatorState w of
        Inl err \<Rightarrow>
          ([GetOperatorStateCall], Return (if IsNotFound err then None else Some err))
      | Inr (opSpec, opStatus) \<Rightarrow>
          if ManagementState opSpec \<noteq> Managed then ([GetOperatorStateCall], Return None)
          else
            (case getDeployment c w opSpec of
               Err err \<Rightarrow> ([GetOperatorStateCall], Return (Some err))
             | Panicked \<Rightarrow> ([GetOperatorStateCall], Panic)
             | Ok deployment \<Rightarrow>
                 let nodeSelector = NodeSelector (d_Spec deployment) in
                 (case nodeLister_List w nodeSelector of
                    Inl err \<Rightarrow>
                      ([GetOperatorStateCall, ListCall nodeSelector], Return (Some err))
                  | Inr nodes \<Rightarrow>
                      let deployment = withReplicas deployment nodes;
                          lastGeneration =
                            ExpectedDeploymentGeneration w deployment (Generations opStatus);
                          calls = [GetOperatorStateCall, ListCall nodeSelector,
                                   ApplyDeploymentCall deployment lastGeneration]
                      in
                      (case ApplyDeployment w deployment lastGeneration of
                         Inl err \<Rightarrow> (calls, Return (Some err))
                       | Inr deployment \<Rightarrow>
                           (case getWebhookConfig w of
                              Err err \<Rightarrow> (calls, Return (Some err))
                            | Panicked \<Rightarrow> (calls, Panic)
                            | Ok webhookConfig \<Rightarrow>
                                let lastWebhookGeneration =
                                      ExpectedValidatingWebhooksConfiguration w
                                        (Name (w_ObjectMeta webhookConfig)) (Generations opStatus);
                                    calls = calls @
                                      [ApplyValidatingWebhookConfigurationCall webhookConfig
                                         lastWebhookGeneration]
                                in
                                (case ApplyValidatingWebhookConfiguration w webhookConfig
                                        lastWebhookGeneration of
                                   Inl err \<Rightarrow> (calls, Return (Some err))
                                 | Inr webhookConfig \<Rightarrow>
                                     (calls @
                                        [UpdateStatusCall (deploymentAvailable deployment)
                                           (deploymentProgressing deployment) deployment
                                           webhookConfig],
                                      Return (UpdateStatus w (deploymentAvailable deployment)
                                                (deploymentProgressing deployment) deployment
                                                webhookConfig))))))))"

subsection \<open>Templates, as the specification describes them\<close>

text \<open>
  The specification speaks of the occurrences of the two placeholders in the template.
  A template is described here by its pieces, in order: literal text and placeholders.
  \<open>template_of\<close> is the text of the asset, \<open>filled\<close> is what stands in the place of
  each piece once the image string and the level are given.
\<close>

datatype piece = Text string | ImagePlaceholder | LogLevelPlaceholder

fun source_text :: "piece \<Rightarrow> string" where
  "source_text (Text s) = s"
| "source_text ImagePlaceholder = ''${WEBHOOK_IMAGE}''"
| "source_text LogLevelPlaceholder = ''${LOG_LEVEL}''"

fun filled :: "string \<Rightarrow> string \<Rightarrow> piece \<Rightarrow> string" where
  "filled img lvl (Text s) = s"
| "filled img lvl ImagePlaceholder = img"
| "filled img lvl LogLevelPlaceholder = lvl"

definition template_of :: "piece list \<Rightarrow> string" where
  "template_of ps = concat (map source_text ps)"

definition rendered_text :: "string \<Rightarrow> string \<Rightarrow> piece list \<Rightarrow> string" where
  "rendered_text img lvl ps = concat (map (filled img lvl) ps)"

text \<open>
  \<open>free_of old s rest\<close>: in the text \<open>s @ rest\<close> no occurrence of \<open>old\<close> begins
  within \<open>s\<close>.
\<close>

fun free_of :: "string \<Rightarrow> string \<Rightarrow> string \<Rightarrow> bool" where
  "free_of old [] rest = True"
| "free_of old (c # cs) rest = (\<not> prefix old (c # cs @ rest) \<and> free_of old cs rest)"

text \<open>
  A list of pieces describes its template when the placeholder pieces are all the
  occurrences of the placeholders: no occurrence begins within a literal text. Every
  text has such a description; \<open>pieces_of\<close> reads one off from left to right.
\<close>

fun describes :: "piece list \<Rightarrow> bool" where
  "describes [] = True"
| "describes (Text s # ps) =
     (free_of ''${WEBHOOK_IMAGE}'' s (template_of ps) \<and>
      free_of ''${LOG_LEVEL}'' s (template_of ps) \<and> describes ps)"
| "describes (p # ps) = describes ps"

function pieces_of :: "string \<Rightarrow> piece list" where
  "pieces_of [] = []"
| "pieces_of (c # cs) =
     (if prefix ''${WEBHOOK_IMAGE}'' (c # cs)
      then ImagePlaceholder # pieces_of (drop (length ''${WEBHOOK_IMAGE}'') (c # cs))
      else if prefix ''${LOG_LEVEL}'' (c # cs)
      then LogLevelPlaceholder # pieces_of (drop (length ''${LOG_LEVEL}'') (c # cs))
      else Text [c] # pieces_of cs)"
  by pat_completeness auto
termination
  by (relation "measure length") auto

text \<open>
  \<open>untouched img ps\<close>: in the text that has the image string \<open>img\<close> in the place of
  every image placeholder, no occurrence of the log level placeholder begins within a
  literal text or within an image string that was put in.
\<close>

fun untouched :: "string \<Rightarrow> piece list \<Rightarrow> bool" where
  "untouched img [] = True"
| "untouched img (Text s # ps) =
     (free_of ''${LOG_LEVEL}'' s (rendered_text img ''${LOG_LEVEL}'' ps) \<and> untouched img ps)"
| "untouched img (ImagePlaceholder # ps) =
     (free_of ''${LOG_LEVEL}'' img (rendered_text img ''${LOG_LEVEL}'' ps) \<and> untouched img ps)"
| "untouched img (LogLevelPlaceholder # ps) = untouched img ps"

subsection \<open>A small cluster for the examples\<close>

text \<open>
  One managed operator, two nodes and a deployment manifest with both placeholders.
  The decoder answers on the texts that the examples render from the manifest, as the
  library does on them. The API server answers an apply with the object it was given;
  the deployment comes back at generation 1, observed, with one updated and one
  available replica.
\<close>

definition example_ValidLogLevel :: "LogLevel \<Rightarrow> bool" where
  "example_ValidLogLevel l = (l \<in> set [''Normal'', ''Debug'', ''Trace'', ''TraceAll''])"

definition example_LogLevelToVerbosity :: "LogLevel \<Rightarrow> int" where
  "example_LogLevelToVerbosity l =
     (if l = ''Normal'' then 2 else if l = ''Debug'' then 4 else if l = ''Trace'' then 6
      else if l = ''TraceAll'' then 8 else 2)"

definition text_lines :: "string list \<Rightarrow> string" where
  "text_lines ls = concat (map (\<lambda>l. l @ [CHR 0x0A]) ls)"

definition example_pieces :: "piece list" where
  "example_pieces =
     [Text (text_lines
        [''apiVersion: apps/v1'',
         ''kind: Deployment'',
         ''metadata:'',
         ''  name: csi-snapshot-webhook'',
         ''  namespace: openshift-cluster-storage-operator'',
         ''spec:'',
         ''  replicas: 1'',
         ''  selector:'',
         ''    matchLabels:'',
         ''      app: csi-snapshot-webhook'',
         ''  template:'',
         ''    metadata:'',
         ''      labels:'',
         ''        app: csi-snapshot-webhook'',
         ''    spec:'',
         ''      nodeSelector:'',
         ''        kubernetes.io/os: linux'',
         ''      containers:'',
         ''      - name: webhook''] @ ''        image: ''),
      ImagePlaceholder,
      Text (text_lines ['''', ''        args:''] @ ''        - --v=''),
      LogLevelPlaceholder,
      Text (text_lines [''''])]"

text \<open>The deployment in the manifest, for an image string and a level.\<close>

definition example_manifest :: "string \<Rightarrow> string \<Rightarrow> Deployment" where
  "example_manifest img lvl =
     \<lparr>d_ObjectMeta = \<lparr>Name = ''csi-snapshot-webhook'',
                      Namespace = ''openshift-cluster-storage-operator'',
                      Generation = 0, Annotations = Map.empty\<rparr>,
      d_Spec = \<lparr>Replicas = Some 1,
                NodeSelector = [''kubernetes.io/os'' \<mapsto> ''linux''],
                Containers = [\<lparr>ContainerName = ''webhook'', Image = img,
                               Args = [''--v='' @ lvl]\<rparr>]\<rparr>,
      d_Status = \<lparr>ObservedGeneration = 0, UpdatedReplicas = 0, AvailableReplicas = 0\<rparr>\<rparr>"

definition example_image :: string where
  "example_image = ''quay.io/snapshot-webhook:v1''"

text \<open>An image string that ends with the other placeholder, and what becomes of it.\<close>

definition placeholder_image :: string where
  "placeholder_image = ''quay.io/snapshot-webhook:${LOG_LEVEL}''"

definition rewritten_image :: string where
  "rewritten_image = ''quay.io/snapshot-webhook:2''"

definition example_decoder :: "string \<Rightarrow> Deployment option" where
  "example_decoder s =
     (if s = rendered_text example_image ''2'' example_pieces
      then Some (example_manifest example_image ''2'')
      else if s = rendered_text rewritten_image ''2'' example_pieces
      then Some (example_manifest rewritten_image ''2'')
      else if s = rendered_text placeholder_image ''2'' example_pieces
      then Some (example_manifest placeholder_image ''2'')
      else None)"

definition example_rendered :: Deployment where
  "example_rendered = example_manifest example_image ''2''"

definition example_hook :: ValidatingWebhookConfiguration where
  "example_hook =
     \<lparr>w_ObjectMeta = \<lparr>Name = ''snapshot.storage.k8s.io'', Namespace = '''',
                      Generation = 0, Annotations = Map.empty\<rparr>,
      Webhooks = [\<lparr>wh_Name = ''volumesnapshotclasses.snapshot.storage.k8s.io'',
                   Rules = [\<lparr>Operations = [''CREATE'', ''UPDATE''],
                             APIGroups = [''snapshot.storage.k8s.io''],
                             APIVersions = [''v1'', ''v1beta1''],
                             Resources = [''volumesnapshots'']\<rparr>]\<rparr>]\<rparr>"

definition example_spec :: OperatorSpec where
  "example_spec = \<lparr>ManagementState = ''Managed'', LogLevel = ''Normal''\<rparr>"

definition example_status :: OperatorStatus where
  "example_status = \<lparr>Conditions = [], Generations = []\<rparr>"

text \<open>
  An answer of the API server to an apply: the object it was given, with a generation,
  an observed generation and the counts of updated and of available replicas.
\<close>

definition answer :: "int \<Rightarrow> int \<Rightarrow> int \<Rightarrow> int \<Rightarrow> Deployment \<Rightarrow> Deployment" where
  "answer generation observed updated available d =
     d\<lparr>d_ObjectMeta := (d_ObjectMeta d)\<lparr>Generation := generation\<rparr>,
       d_Status := \<lparr>ObservedGeneration = observed, UpdatedReplicas = updated,
                    AvailableReplicas = available\<rparr>\<rparr>"

definition example_world :: world where
  "example_world =
     \<lparr>GetOperatorState = Inr (example_spec, example_status),
      MustAsset = (\<lambda>name. if name = deploymentAsset then template_of example_pieces
                           else ''kind: ValidatingWebhookConfiguration''),
      ValidLogLevel = example_ValidLogLevel,
      LogLevelToVerbosity = example_LogLevelToVerbosity,
      ReadDeploymentV1OrDie = example_decoder,
      nodeLister_List =
        (\<lambda>selector. Inr [\<lparr>NodeName = ''master-0'', Labels = selector\<rparr>,
                           \<lparr>NodeName = ''master-1'', Labels = selector\<rparr>]),
      ExpectedDeploymentGeneration = (\<lambda>d gs. - 1),
      ApplyDeployment = (\<lambda>d g. Inr (answer 1 1 1 1 d)),
      Decode = (\<lambda>s. Inr (ValidatingWebhookConfigurationObject example_hook)),
      SetSpecHashAnnotation = (\<lambda>m ws. m),
      ExpectedValidatingWebhooksConfiguration = (\<lambda>n gs. - 1),
      ApplyValidatingWebhookConfiguration = (\<lambda>h g. Inr h),
      UpdateStatus = (\<lambda>a p d h. None)\<rparr>"

definition example_controller :: csiSnapshotWebhookController where
  "example_controller = NewCSISnapshotWebhookController example_image"

definition example_desired :: Deployment where
  "example_desired = example_rendered\<lparr>d_Spec := (d_Spec example_rendered)\<lparr>Replicas := Some 2\<rparr>\<rparr>"

definition example_live :: Deployment where
  "example_live = answer 1 1 1 1 example_desired"

text \<open>The same cluster with an operator configuration that is missing, or not managed.\<close>

definition absent_world :: world where
  "absent_world = example_world\<lparr>GetOperatorState := Inl (NotFound ''cluster'')\<rparr>"

definition unmanaged_world :: world where
  "unmanaged_world =
     example_world\<lparr>GetOperatorState :=
       Inr (example_spec\<lparr>ManagementState := ''Unmanaged''\<rparr>, example_status)\<rparr>"

text \<open>The same cluster where the API server refuses the webhook configuration.\<close>

definition hook_refused_world :: world where
  "hook_refused_world =
     example_world\<lparr>ApplyValidatingWebhookConfiguration := (\<lambda>h g. Inl (OtherError ''conflict''))\<rparr>"

text \<open>The same cluster with another answer \<open>f\<close> of the API server to the deployment.\<close>

definition answering_world :: "(Deployment \<Rightarrow> Deployment) \<Rightarrow> world" where
  "answering_world f = example_world\<lparr>ApplyDeployment := (\<lambda>d g. Inr (f d))\<rparr>"

text \<open>The live deployment comes back without a replica count.\<close>

definition unset :: "Deployment \<Rightarrow> Deployment" where
  "unset d = d\<lparr>d_Spec := (d_Spec d)\<lparr>Replicas := None\<rparr>\<rparr>"

definition unset_live :: Deployment where
  "unset_live = unset example_desired"

definition unset_world :: world where
  "unset_world = answering_world unset"

text \<open>The live deployment is at generation 6 and generation 5 has been observed.\<close>

definition skew_live :: Deployment where
  "skew_live = answer 6 5 0 0 example_desired"

definition skew_world :: world where
  "skew_world = answering_world (answer 6 5 0 0)"

text \<open>The live deployment has both replicas updated and available.\<close>

definition converged_live :: Deployment where
  "converged_live = answer 1 1 2 2 example_desired"

definition converged_world :: world where
  "converged_world = answering_world (answer 1 1 2 2)"

text \<open>A controller whose image string ends with the other placeholder.\<close>

definition placeholder_controller :: csiSnapshotWebhookController where
  "placeholder_controller = NewCSISnapshotWebhookController placeholder_image"

text \<open>A controller with the same image string and a work queue that is in use.\<close>

definition busy_controller :: csiSnapshotWebhookController where
  "busy_controller =
     example_controller\<lparr>queue := \<lparr>queueName = ''other'', items = [''pending'']\<rparr>\<rparr>"

section \<open>Properties\<close>

subsection \<open>The ways through sync\<close>

text \<open>
  Every run of \<^verbatim>\<open>sync\<close> takes one of ten ways, one for each \<^verbatim>\<open>return\<close> of the source
  (and one for each panic of a rendering function). Each way fixes the trace and the
  result.
\<close>

lemma sync_cases:
  fixes c :: csiSnapshotWebhookController and w :: world
  obtains
    (absent) e where "GetOperatorState w = Inl e"
      "sync c w = ([GetOperatorStateCall], Return (if IsNotFound e then None else Some e))"
  | (unmanaged) opSpec opStatus where "GetOperatorState w = Inr (opSpec, opStatus)"
      "ManagementState opSpec \<noteq> Managed"
      "sync c w = ([GetOperatorStateCall], Return None)"
  | (render_error) opSpec opStatus e where "GetOperatorState w = Inr (opSpec, opStatus)"
      "ManagementState opSpec = Managed" "getDeployment c w opSpec = Err e"
      "sync c w = ([GetOperatorStateCall], Return (Some e))"
  | (render_panic) opSpec opStatus where "GetOperatorState w = Inr (opSpec, opStatus)"
      "ManagementState opSpec = Managed" "getDeployment c w opSpec = Panicked"
      "sync c w = ([GetOperatorStateCall], Panic)"
  | (list_error) opSpec opStatus rendered e where "GetOperatorState w = Inr (opSpec, opStatus)"
      "ManagementState opSpec = Managed" "getDeployment c w opSpec = Ok rendered"
      "nodeLister_List w (NodeSelector (d_Spec rendered)) = Inl e"
      "sync c w =
         ([GetOperatorStateCall, ListCall (NodeSelector (d_Spec rendered))], Return (Some e))"
  | (apply_error) opSpec opStatus rendered nodes g e where
      "GetOperatorState w = Inr (opSpec, opStatus)"
      "ManagementState opSpec = Managed" "getDeployment c w opSpec = Ok rendered"
      "nodeLister_List w (NodeSelector (d_Spec rendered)) = Inr nodes"
      "g = ExpectedDeploymentGeneration w (withReplicas rendered nodes) (Generations opStatus)"
      "ApplyDeployment w (withReplicas rendered nodes) g = Inl e"
      "sync c w = ([GetOperatorStateCall, ListCall (NodeSelector (d_Spec rendered)),
                    ApplyDeploymentCall (withReplicas rendered nodes) g], Return (Some e))"
  | (hook_render_error) opSpec opStatus rendered nodes g live e where
      "GetOperatorState w = Inr (opSpec, opStatus)"
      "ManagementState opSpec = Managed" "getDeployment c w opSpec = Ok rendered"
      "nodeLister_List w (NodeSelector (d_Spec rendered)) = Inr nodes"
      "g = ExpectedDeploymentGeneration w (withReplicas rendered nodes) (Generations opStatus)"
      "ApplyDeployment w (withReplicas rendered nodes) g = Inr live"
      "getWebhookConfig w = Err e"
      "sync c w = ([GetOperatorStateCall, ListCall (NodeSelector (d_Spec rendered)),
                    ApplyDeploymentCall (withReplicas rendered nodes) g], Return (Some e))"
  | (hook_render_panic) opSpec opStatus rendered nodes g live where
      "GetOperatorState w = Inr (opSpec, opStatus)"
      "ManagementState opSpec = Managed" "getDeployment c w opSpec = Ok rendered"
      "nodeLister_List w (NodeSelector (d_Spec rendered)) = Inr nodes"
      "g = ExpectedDeploymentGeneration w (withReplicas rendered nodes) (Generations opStatus)"
      "ApplyDeployment w (withReplicas rendered nodes) g = Inr live"
      "getWebhookConfig w = Panicked"
      "sync c w = ([GetOperatorStateCall, ListCall (NodeSelector (d_Spec rendered)),
                    ApplyDeploymentCall (withReplicas rendered nodes) g], Panic)"
  | (hook_apply_error) opSpec opStatus rendered nodes g live webhookConfig g' e where
      "GetOperatorState w = Inr (opSpec, opStatus)"
      "ManagementState opSpec = Managed" "getDeployment c w opSpec = Ok rendered"
      "nodeLister_List w (NodeSelector (d_Spec rendered)) = Inr nodes"
      "g = ExpectedDeploymentGeneration w (withReplicas rendered nodes) (Generations opStatus)"
      "ApplyDeployment w (withReplicas rendered nodes) g = Inr live"
      "getWebhookConfig w = Ok webhookConfig"
      "g' = ExpectedValidatingWebhooksConfiguration w (Name (w_ObjectMeta webhookConfig))
              (Generations opStatus)"
      "ApplyValidatingWebhookConfiguration w webhookConfig g' = Inl e"
      "sync c w = ([GetOperatorStateCall, ListCall (NodeSelector (d_Spec rendered)),
                    ApplyDeploymentCall (withReplicas rendered nodes) g,
                    ApplyValidatingWebhookConfigurationCall webhookConfig g'], Return (Some e))"
  | (status) opSpec opStatus rendered nodes g live webhookConfig g' hook where
      "GetOperatorState w = Inr (opSpec, opStatus)"
      "ManagementState opSpec = Managed" "getDeployment c w opSpec = Ok rendered"
      "nodeLister_List w (NodeSelector (d_Spec rendered)) = Inr nodes"
      "g = ExpectedDeploymentGeneration w (withReplicas rendered nodes) (Generations opStatus)"
      "ApplyDeployment w (withReplicas rendered nodes) g = Inr live"
      "getWebhookConfig w = Ok webhookConfig"
      "g' = ExpectedValidatingWebhooksConfiguration w (Name (w_ObjectMeta webhookConfig))
              (Generations opStatus)"
      "ApplyValidatingWebhookConfiguration w webhookConfig g' = Inr hook"
      "sync c w = ([GetOperatorStateCall, ListCall (NodeSelector (d_Spec rendered)),
                    ApplyDeploymentCall (withReplicas rendered nodes) g,
                    ApplyValidatingWebhookConfigurationCall webhookConfig g',
                    UpdateStatusCall (deploymentAvailable live) (deploymentProgressing live)
                      live hook],
                   Return (UpdateStatus w (deploymentAvailable live)
                     (deploymentProgressing live) live hook))"
proof (cases "GetOperatorState w")
  case (Inl e)
  then show thesis by (intro absent[of e]) (simp_all add: sync_def)
next
  case (Inr st)
  obtain opSpec opStatus where st: "st = (opSpec, opStatus)" by (cases st)
  note state = Inr[unfolded st]
  show thesis
  proof (cases "ManagementState opSpec = Managed")
    case False
    with state show thesis by (intro unmanaged[of opSpec opStatus]) (simp_all add: sync_def)
  next
    case managed: True
    show thesis
    proof (cases "getDeployment c w opSpec")
      case (Err e)
      with state managed show thesis
        by (intro render_error[of opSpec opStatus e]) (simp_all add: sync_def)
    next
      case Panicked
      with state managed show thesis
        by (intro render_panic[of opSpec opStatus]) (simp_all add: sync_def)
    next
      case (Ok rendered)
      note pre1 = state managed Ok
      show thesis
      proof (cases "nodeLister_List w (NodeSelector (d_Spec rendered))")
        case (Inl e)
        with pre1 show thesis
          by (intro list_error[of opSpec opStatus rendered e]) (simp_all add: sync_def)
      next
        case nodes: (Inr nodes)
        define g where
          "g = ExpectedDeploymentGeneration w (withReplicas rendered nodes) (Generations opStatus)"
        note pre2 = pre1 nodes
        show thesis
        proof (cases "ApplyDeployment w (withReplicas rendered nodes) g")
          case (Inl e)
          with pre2 g_def show thesis
            by (intro apply_error[of opSpec opStatus rendered nodes g e])
               (simp_all add: sync_def Let_def)
        next
          case live: (Inr live)
          note pre3 = pre2 live
          show thesis
          proof (cases "getWebhookConfig w")
            case (Err e)
            with pre3 g_def show thesis
              by (intro hook_render_error[of opSpec opStatus rendered nodes g live e])
                 (simp_all add: sync_def Let_def)
          next
            case Panicked
            with pre3 g_def show thesis
              by (intro hook_render_panic[of opSpec opStatus rendered nodes g live])
                 (simp_all add: sync_def Let_def)
          next
            case hk: (Ok webhookConfig)
            define g' where "g' = ExpectedValidatingWebhooksConfiguration w
              (Name (w_ObjectMeta webhookConfig)) (Generations opStatus)"
            note pre4 = pre3 hk
            show thesis
            proof (cases "ApplyValidatingWebhookConfiguration w webhookConfig g'")
              case (Inl e)
              with pre4 g_def g'_def show thesis
                by (intro hook_apply_error
                      [of opSpec opStatus rendered nodes g live webhookConfig g' e])
                   (simp_all add: sync_def Let_def)
            next
              case (Inr hook)
              with pre4 g_def g'_def show thesis
                by (intro status[of opSpec opStatus rendered nodes g live webhookConfig g' hook])
                   (simp_all add: sync_def Let_def)
            qed
          qed
        qed
      qed
    qed
  qed
qed

lemma Replicas_withReplicas:
  "Replicas (d_Spec (withReplicas d nodes)) = Some (if length nodes > 1 then 2 else 1)"
  by (simp add: withReplicas_def)

subsection \<open>Replacing placeholders\<close>

lemma ReplaceAll_skip:
  assumes "CHR ''$'' \<notin> set s"
  shows "ReplaceAll (s @ t) (CHR ''$'' # r) new = s @ ReplaceAll t (CHR ''$'' # r) new"
  using assms by (induction s) auto

lemma ReplaceAll_hit:
  "ReplaceAll ((a # r) @ t) (a # r) new = new @ ReplaceAll t (a # r) new"
  by simp

lemma ReplaceAll_image_over_level:
  "ReplaceAll (''${LOG_LEVEL}'' @ t) ''${WEBHOOK_IMAGE}'' new
     = ''${LOG_LEVEL}'' @ ReplaceAll t ''${WEBHOOK_IMAGE}'' new"
proof -
  have "ReplaceAll (''{LOG_LEVEL}'' @ t) ''${WEBHOOK_IMAGE}'' new
     = ''{LOG_LEVEL}'' @ ReplaceAll t ''${WEBHOOK_IMAGE}'' new"
    by (rule ReplaceAll_skip) simp
  then show ?thesis by simp
qed

lemma ReplaceAll_free:
  assumes "old \<noteq> []" "free_of old s rest"
  shows "ReplaceAll (s @ rest) old new = s @ ReplaceAll rest old new"
  using assms by (induction s) auto

lemma template_of_simps:
  "template_of [] = []"
  "template_of (p # ps) = source_text p @ template_of ps"
  by (simp_all add: template_of_def)

lemma rendered_text_simps:
  "rendered_text img lvl [] = []"
  "rendered_text img lvl (p # ps) = filled img lvl p @ rendered_text img lvl ps"
  by (simp_all add: rendered_text_def)

lemma prefix_take_drop: "prefix xs ys \<Longrightarrow> xs @ drop (length xs) ys = ys"
  by (auto simp: prefix_def)

lemma template_of_pieces_of: "template_of (pieces_of s) = s"
proof (induction s rule: pieces_of.induct)
  case 1
  show ?case by (simp add: template_of_simps)
next
  case (2 c cs)
  show ?case
  proof (cases "prefix ''${WEBHOOK_IMAGE}'' (c # cs)")
    case True
    have "pieces_of (c # cs) =
        ImagePlaceholder # pieces_of (drop (length ''${WEBHOOK_IMAGE}'') (c # cs))"
      using True by simp
    moreover have "template_of (pieces_of (drop (length ''${WEBHOOK_IMAGE}'') (c # cs)))
        = drop (length ''${WEBHOOK_IMAGE}'') (c # cs)"
      using "2.IH"(1)[OF True] .
    ultimately have "template_of (pieces_of (c # cs))
        = ''${WEBHOOK_IMAGE}'' @ drop (length ''${WEBHOOK_IMAGE}'') (c # cs)"
      by (simp only: template_of_simps source_text.simps)
    with prefix_take_drop[OF True] show ?thesis by (simp only:)
  next
    case no_image: False
    show ?thesis
    proof (cases "prefix ''${LOG_LEVEL}'' (c # cs)")
      case True
      have "pieces_of (c # cs) =
          LogLevelPlaceholder # pieces_of (drop (length ''${LOG_LEVEL}'') (c # cs))"
        using True no_image by simp
      moreover have "template_of (pieces_of (drop (length ''${LOG_LEVEL}'') (c # cs)))
          = drop (length ''${LOG_LEVEL}'') (c # cs)"
        using "2.IH"(2)[OF no_image True] .
      ultimately have "template_of (pieces_of (c # cs))
          = ''${LOG_LEVEL}'' @ drop (length ''${LOG_LEVEL}'') (c # cs)"
        by (simp only: template_of_simps source_text.simps)
      with prefix_take_drop[OF True] show ?thesis by (simp only:)
    next
      case False
      have "pieces_of (c # cs) = Text [c] # pieces_of cs"
        using False no_image by simp
      moreover have "template_of (pieces_of cs) = cs"
        using "2.IH"(3)[OF no_image False] .
      ultimately show ?thesis
        by (simp add: template_of_simps)
    qed
  qed
qed

lemma describes_pieces_of: "describes (pieces_of s)"
proof (induction s rule: pieces_of.induct)
  case 1
  show ?case by simp
next
  case (2 c cs)
  show ?case
  proof (cases "prefix ''${WEBHOOK_IMAGE}'' (c # cs)")
    case True
    have "pieces_of (c # cs) =
        ImagePlaceholder # pieces_of (drop (length ''${WEBHOOK_IMAGE}'') (c # cs))"
      using True by simp
    with "2.IH"(1)[OF True] show ?thesis by (simp only: describes.simps)
  next
    case no_image: False
    show ?thesis
    proof (cases "prefix ''${LOG_LEVEL}'' (c # cs)")
      case True
      have "pieces_of (c # cs) =
          LogLevelPlaceholder # pieces_of (drop (length ''${LOG_LEVEL}'') (c # cs))"
        using True no_image by simp
      with "2.IH"(2)[OF no_image True] show ?thesis by (simp only: describes.simps)
    next
      case False
      have "pieces_of (c # cs) = Text [c] # pieces_of cs"
        using False no_image by simp
      moreover have "free_of ''${WEBHOOK_IMAGE}'' [c] cs" "free_of ''${LOG_LEVEL}'' [c] cs"
        using False no_image by simp_all
      ultimately show ?thesis
        using "2.IH"(3)[OF no_image False]
        by (simp only: describes.simps template_of_pieces_of simp_thms)
    qed
  qed
qed

lemma first_pass:
  assumes "describes ps"
  shows "ReplaceAll (template_of ps) ''${WEBHOOK_IMAGE}'' img = rendered_text img ''${LOG_LEVEL}'' ps"
  using assms
proof (induction ps)
  case Nil
  show ?case by (simp add: template_of_simps rendered_text_simps)
next
  case (Cons p ps)
  show ?case
  proof (cases p)
    case (Text s)
    with Cons have "free_of ''${WEBHOOK_IMAGE}'' s (template_of ps)"
      and IH: "ReplaceAll (template_of ps) ''${WEBHOOK_IMAGE}'' img = rendered_text img ''${LOG_LEVEL}'' ps"
      by simp_all
    then show ?thesis using Text
      by (simp add: template_of_simps rendered_text_simps ReplaceAll_free)
  next
    case ImagePlaceholder
    with Cons ReplaceAll_hit[of "CHR ''$''" "''{WEBHOOK_IMAGE}''" "template_of ps" img]
    show ?thesis by (simp add: template_of_simps rendered_text_simps)
  next
    case LogLevelPlaceholder
    with Cons ReplaceAll_image_over_level[of "template_of ps" img]
    show ?thesis by (simp add: template_of_simps rendered_text_simps)
  qed
qed

lemma second_pass:
  assumes "untouched img ps"
  shows "ReplaceAll (rendered_text img ''${LOG_LEVEL}'' ps) ''${LOG_LEVEL}'' lvl = rendered_text img lvl ps"
  using assms
proof (induction ps)
  case Nil
  show ?case by (simp add: rendered_text_simps)
next
  case (Cons p ps)
  show ?case
  proof (cases p)
    case (Text s)
    with Cons show ?thesis
      by (simp add: rendered_text_simps ReplaceAll_free)
  next
    case ImagePlaceholder
    with Cons show ?thesis
      by (simp add: rendered_text_simps ReplaceAll_free)
  next
    case LogLevelPlaceholder
    with Cons ReplaceAll_hit[of "CHR ''$''" "''{LOG_LEVEL}''" "rendered_text img ''${LOG_LEVEL}'' ps" lvl]
    show ?thesis by (simp add: rendered_text_simps)
  qed
qed

subsection \<open>The webhook configuration\<close>

text \<open>
  \<^verbatim>\<open>getWebhookConfig\<close> gives the asset to the decoder as it is. What it returns is the
  decoded object with the metadata that \<^verbatim>\<open>SetSpecHashAnnotation\<close> made from the metadata
  and the webhooks of that object; the webhooks are not changed.
\<close>

lemma getWebhookConfig_Ok:
  assumes "getWebhookConfig w = Ok webhookConfig"
  shows "\<exists>webhook.
     Decode w (MustAsset w webhookAsset) = Inr (ValidatingWebhookConfigurationObject webhook) \<and>
     Webhooks webhookConfig = Webhooks webhook \<and>
     w_ObjectMeta webhookConfig =
       SetSpecHashAnnotation w (w_ObjectMeta webhook) (Webhooks webhook)"
  using assms
  by (auto simp: getWebhookConfig_def split: sum.splits RuntimeObject.splits)

subsection \<open>The examples, evaluated\<close>

lemma Itoa_small: "Itoa 1 = ''1''" "Itoa 2 = ''2''"
  by (simp_all add: Itoa_def decimal.simps)

lemma example_template: "MustAsset example_world deploymentAsset = template_of example_pieces"
  by (simp add: example_world_def)

lemma example_describes: "describes example_pieces"
  by (simp add: example_pieces_def text_lines_def template_of_def)

lemma example_untouched: "untouched example_image example_pieces"
  by (simp add: example_pieces_def text_lines_def rendered_text_def example_image_def)

lemma example_text:
  "ReplaceAll (ReplaceAll (template_of example_pieces) ''${WEBHOOK_IMAGE}'' example_image)
     ''${LOG_LEVEL}'' ''2'' = rendered_text example_image ''2'' example_pieces"
  by (simp only: first_pass[OF example_describes] second_pass[OF example_untouched])

lemma placeholder_text:
  "ReplaceAll (ReplaceAll (template_of example_pieces) ''${WEBHOOK_IMAGE}'' placeholder_image)
     ''${LOG_LEVEL}'' ''2'' = rendered_text rewritten_image ''2'' example_pieces"
  by (simp only: first_pass[OF example_describes])
     (simp add: rendered_text_def example_pieces_def text_lines_def placeholder_image_def
        rewritten_image_def)

lemma example_texts_differ:
  "rendered_text rewritten_image ''2'' example_pieces
     \<noteq> rendered_text example_image ''2'' example_pieces"
  "rendered_text placeholder_image ''2'' example_pieces
     \<noteq> rendered_text example_image ''2'' example_pieces"
  "rendered_text placeholder_image ''2'' example_pieces
     \<noteq> rendered_text rewritten_image ''2'' example_pieces"
  by (simp_all add: rendered_text_def example_pieces_def text_lines_def placeholder_image_def
        rewritten_image_def example_image_def)

lemma example_decoder_values:
  "example_decoder (rendered_text example_image ''2'' example_pieces)
     = Some (example_manifest example_image ''2'')"
  "example_decoder (rendered_text rewritten_image ''2'' example_pieces)
     = Some (example_manifest rewritten_image ''2'')"
  "example_decoder (rendered_text placeholder_image ''2'' example_pieces)
     = Some (example_manifest placeholder_image ''2'')"
  by (simp_all add: example_decoder_def example_texts_differ)

lemma example_level:
  "ValidLogLevel example_world (LogLevel example_spec)"
  "Itoa (LogLevelToVerbosity example_world (LogLevel example_spec)) = ''2''"
  by (simp_all add: example_world_def example_spec_def example_ValidLogLevel_def
        example_LogLevelToVerbosity_def Itoa_small)

lemma example_getDeployment:
  "getDeployment example_controller example_world example_spec = Ok example_rendered"
proof -
  have "ReadDeploymentV1OrDie example_world = example_decoder"
    by (simp add: example_world_def)
  moreover have "csiSnapshotWebhookImage example_controller = example_image"
    by (simp add: example_controller_def NewCSISnapshotWebhookController_def)
  ultimately show ?thesis
    by (simp add: getDeployment_def Let_def example_template example_level example_text
        example_decoder_values example_rendered_def)
qed

lemma placeholder_getDeployment:
  "getDeployment placeholder_controller example_world example_spec
     = Ok (example_manifest rewritten_image ''2'')"
proof -
  have "ReadDeploymentV1OrDie example_world = example_decoder"
    by (simp add: example_world_def)
  moreover have "csiSnapshotWebhookImage placeholder_controller = placeholder_image"
    by (simp add: placeholder_controller_def NewCSISnapshotWebhookController_def)
  ultimately show ?thesis
    by (simp add: getDeployment_def Let_def example_template example_level placeholder_text
        example_decoder_values)
qed

lemma example_getWebhookConfig: "getWebhookConfig example_world = Ok example_hook"
  by (simp add: getWebhookConfig_def example_world_def)

lemma example_withReplicas:
  "withReplicas example_rendered
     [\<lparr>NodeName = ''master-0'', Labels = sel\<rparr>, \<lparr>NodeName = ''master-1'', Labels = sel\<rparr>]
   = example_desired"
  by (simp add: withReplicas_def example_desired_def)

lemma example_sync:
  "sync example_controller example_world =
     ([GetOperatorStateCall, ListCall (NodeSelector (d_Spec example_rendered)),
       ApplyDeploymentCall example_desired (- 1),
       ApplyValidatingWebhookConfigurationCall example_hook (- 1),
       UpdateStatusCall (deploymentAvailable example_live) (deploymentProgressing example_live)
         example_live example_hook],
      Return None)"
proof -
  have "GetOperatorState example_world = Inr (example_spec, example_status)"
    by (simp add: example_world_def)
  moreover have "ManagementState example_spec = Managed"
    by (simp add: example_spec_def Managed_def)
  ultimately show ?thesis
    using example_getDeployment example_getWebhookConfig
    by (simp add: sync_def Let_def)
       (simp add: example_world_def example_withReplicas example_live_def)
qed

lemma getDeployment_frame:
  "getDeployment c (w\<lparr>ApplyDeployment := f\<rparr>) s = getDeployment c w s"
  "getDeployment c (w\<lparr>ApplyValidatingWebhookConfiguration := k\<rparr>) s = getDeployment c w s"
  by (simp_all add: getDeployment_def)

lemma getWebhookConfig_frame:
  "getWebhookConfig (w\<lparr>ApplyDeployment := f\<rparr>) = getWebhookConfig w"
  "getWebhookConfig (w\<lparr>ApplyValidatingWebhookConfiguration := k\<rparr>) = getWebhookConfig w"
  by (simp_all add: getWebhookConfig_def split: sum.splits RuntimeObject.splits)

lemma absent_sync: "sync example_controller absent_world = ([GetOperatorStateCall], Return None)"
  by (simp add: sync_def absent_world_def)

lemma unmanaged_sync:
  "sync example_controller unmanaged_world = ([GetOperatorStateCall], Return None)"
  by (simp add: sync_def unmanaged_world_def example_spec_def Managed_def)

lemma hook_refused_sync:
  "sync example_controller hook_refused_world =
     ([GetOperatorStateCall, ListCall (NodeSelector (d_Spec example_rendered)),
       ApplyDeploymentCall example_desired (- 1),
       ApplyValidatingWebhookConfigurationCall example_hook (- 1)],
      Return (Some (OtherError ''conflict'')))"
proof -
  have "getDeployment example_controller hook_refused_world example_spec = Ok example_rendered"
    by (simp add: hook_refused_world_def getDeployment_frame example_getDeployment)
  moreover have "getWebhookConfig hook_refused_world = Ok example_hook"
    by (simp add: hook_refused_world_def getWebhookConfig_frame example_getWebhookConfig)
  moreover have "GetOperatorState hook_refused_world = Inr (example_spec, example_status)"
    by (simp add: hook_refused_world_def example_world_def)
  moreover have "ManagementState example_spec = Managed"
    by (simp add: example_spec_def Managed_def)
  ultimately show ?thesis
    by (simp add: sync_def Let_def)
       (simp add: hook_refused_world_def example_world_def example_withReplicas)
qed

lemma answering_sync:
  "sync example_controller (answering_world f) =
     ([GetOperatorStateCall, ListCall (NodeSelector (d_Spec example_rendered)),
       ApplyDeploymentCall example_desired (- 1),
       ApplyValidatingWebhookConfigurationCall example_hook (- 1),
       UpdateStatusCall (deploymentAvailable (f example_desired))
         (deploymentProgressing (f example_desired)) (f example_desired) example_hook],
      Return None)"
proof -
  have "getDeployment example_controller (answering_world f) example_spec = Ok example_rendered"
    by (simp add: answering_world_def getDeployment_frame example_getDeployment)
  moreover have "getWebhookConfig (answering_world f) = Ok example_hook"
    by (simp add: answering_world_def getWebhookConfig_frame example_getWebhookConfig)
  moreover have "GetOperatorState (answering_world f) = Inr (example_spec, example_status)"
    by (simp add: answering_world_def example_world_def)
  moreover have "ManagementState example_spec = Managed"
    by (simp add: example_spec_def Managed_def)
  ultimately show ?thesis
    by (simp add: sync_def Let_def)
       (simp add: answering_world_def example_world_def example_withReplicas)
qed

lemma unset_sync:
  "sync example_controller unset_world =
     ([GetOperatorStateCall, ListCall (NodeSelector (d_Spec example_rendered)),
       ApplyDeploymentCall example_desired (- 1),
       ApplyValidatingWebhookConfigurationCall example_hook (- 1),
       UpdateStatusCall (deploymentAvailable unset_live) (deploymentProgressing unset_live)
         unset_live example_hook],
      Return None)"
  by (simp add: unset_world_def unset_live_def answering_sync)

lemma skew_sync:
  "sync example_controller skew_world =
     ([GetOperatorStateCall, ListCall (NodeSelector (d_Spec example_rendered)),
       ApplyDeploymentCall example_desired (- 1),
       ApplyValidatingWebhookConfigurationCall example_hook (- 1),
       UpdateStatusCall (deploymentAvailable skew_live) (deploymentProgressing skew_live)
         skew_live example_hook],
      Return None)"
  by (simp add: skew_world_def skew_live_def answering_sync)

lemma converged_sync:
  "sync example_controller converged_world =
     ([GetOperatorStateCall, ListCall (NodeSelector (d_Spec example_rendered)),
       ApplyDeploymentCall example_desired (- 1),
       ApplyValidatingWebhookConfigurationCall example_hook (- 1),
       UpdateStatusCall (deploymentAvailable converged_live)
         (deploymentProgressing converged_live) converged_live example_hook],
      Return None)"
  by (simp add: converged_world_def converged_live_def answering_sync)

lemma example_live_fields:
  "Generation (d_ObjectMeta example_live) = 1"
  "ObservedGeneration (d_Status example_live) = 1"
  "UpdatedReplicas (d_Status example_live) = 1"
  "AvailableReplicas (d_Status example_live) = 1"
  "Replicas (d_Spec example_live) = Some 2"
  by (simp_all add: example_live_def answer_def example_desired_def)

lemma unset_live_fields:
  "Generation (d_ObjectMeta unset_live) = 0"
  "ObservedGeneration (d_Status unset_live) = 0"
  "Replicas (d_Spec unset_live) = None"
  by (simp_all add: unset_live_def unset_def example_desired_def example_rendered_def
        example_manifest_def)

lemma skew_live_fields:
  "Generation (d_ObjectMeta skew_live) = 6"
  "ObservedGeneration (d_Status skew_live) = 5"
  by (simp_all add: skew_live_def answer_def)

lemma converged_live_fields:
  "Generation (d_ObjectMeta converged_live) = 1"
  "ObservedGeneration (d_Status converged_live) = 1"
  "UpdatedReplicas (d_Status converged_live) = 2"
  "AvailableReplicas (d_Status converged_live) = 2"
  "Replicas (d_Spec converged_live) = Some 2"
  by (simp_all add: converged_live_def answer_def example_desired_def)

section \<open>The claims\<close>

text \<open>
  C1. Whenever the node lister returns a node list for the node selector of the rendered
  deployment, \<^verbatim>\<open>sync\<close> asks for that selector and applies exactly one deployment, the
  rendered one with its replica count set: 1 for no node or one node, 2 for two nodes or
  more, and no other value.
\<close>

theorem sync_replicas_from_node_count:
  assumes "GetOperatorState w = Inr (opSpec, opStatus)"
    and "ManagementState opSpec = Managed"
    and "getDeployment c w opSpec = Ok rendered"
    and "nodeLister_List w (NodeSelector (d_Spec rendered)) = Inr nodes"
  shows "ListCall (NodeSelector (d_Spec rendered)) \<in> set (fst (sync c w)) \<and>
     filter isApplyDeploymentCall (fst (sync c w)) =
       [ApplyDeploymentCall (withReplicas rendered nodes)
          (ExpectedDeploymentGeneration w (withReplicas rendered nodes) (Generations opStatus))] \<and>
     withReplicas rendered nodes =
       rendered\<lparr>d_Spec := (d_Spec rendered)\<lparr>Replicas := Replicas (d_Spec (withReplicas rendered nodes))\<rparr>\<rparr> \<and>
     (length nodes = 0 \<or> length nodes = 1 \<longrightarrow>
        Replicas (d_Spec (withReplicas rendered nodes)) = Some 1) \<and>
     (2 \<le> length nodes \<longrightarrow> Replicas (d_Spec (withReplicas rendered nodes)) = Some 2) \<and>
     (Replicas (d_Spec (withReplicas rendered nodes)) = Some 1 \<or>
      Replicas (d_Spec (withReplicas rendered nodes)) = Some 2)"
proof -
  have sized: "(length nodes = 0 \<or> length nodes = 1 \<longrightarrow>
        Replicas (d_Spec (withReplicas rendered nodes)) = Some 1) \<and>
     (2 \<le> length nodes \<longrightarrow> Replicas (d_Spec (withReplicas rendered nodes)) = Some 2) \<and>
     (Replicas (d_Spec (withReplicas rendered nodes)) = Some 1 \<or>
      Replicas (d_Spec (withReplicas rendered nodes)) = Some 2)"
    by (auto simp: Replicas_withReplicas)
  have shape: "withReplicas rendered nodes =
       rendered\<lparr>d_Spec := (d_Spec rendered)\<lparr>Replicas := Replicas (d_Spec (withReplicas rendered nodes))\<rparr>\<rparr>"
    by (simp add: withReplicas_def)
  have "ListCall (NodeSelector (d_Spec rendered)) \<in> set (fst (sync c w)) \<and>
     filter isApplyDeploymentCall (fst (sync c w)) =
       [ApplyDeploymentCall (withReplicas rendered nodes)
          (ExpectedDeploymentGeneration w (withReplicas rendered nodes) (Generations opStatus))]"
    using assms by (cases rule: sync_cases[of w c]) simp_all
  with sized shape show ?thesis by blast
qed

theorem sync_replicas_from_node_count_witness:
  "filter isApplyDeploymentCall (fst (sync example_controller example_world)) =
     [ApplyDeploymentCall example_desired (- 1)] \<and>
   Replicas (d_Spec example_desired) = Some 2"
proof -
  have 1: "GetOperatorState example_world = Inr (example_spec, example_status)"
    by (simp add: example_world_def)
  have 2: "ManagementState example_spec = Managed"
    by (simp add: example_spec_def Managed_def)
  have 3: "nodeLister_List example_world (NodeSelector (d_Spec example_rendered)) =
    Inr [\<lparr>NodeName = ''master-0'', Labels = NodeSelector (d_Spec example_rendered)\<rparr>,
         \<lparr>NodeName = ''master-1'', Labels = NodeSelector (d_Spec example_rendered)\<rparr>]"
    by (simp add: example_world_def)
  from sync_replicas_from_node_count[OF 1 2 example_getDeployment 3]
  show ?thesis
    by (simp add: example_withReplicas) (simp add: example_world_def)
qed

text \<open>
  C2, as amended. In every status update of \<^verbatim>\<open>sync\<close>: when the observed generation of
  the live deployment differs from its generation, the Progressing condition is True and
  its message gives both generations. Otherwise, when \<^verbatim>\<open>Spec.Replicas\<close> is set: the
  condition is False if the updated replica count equals it, and True with a message
  giving both counts if not. Otherwise (\<^verbatim>\<open>Spec.Replicas\<close> is nil) the status is left
  empty.
\<close>

theorem sync_progressing_condition:
  assumes "UpdateStatusCall a p d h \<in> set (fst (sync c w))"
  shows "(ObservedGeneration (d_Status d) \<noteq> Generation (d_ObjectMeta d) \<longrightarrow>
        Status p = ConditionTrue \<and>
        Message p = ''desired generation '' @ Itoa (Generation (d_ObjectMeta d))
          @ '', current generation '' @ Itoa (ObservedGeneration (d_Status d))) \<and>
     (ObservedGeneration (d_Status d) = Generation (d_ObjectMeta d) \<longrightarrow>
        (\<forall>desired. Replicas (d_Spec d) = Some desired \<longrightarrow>
           (UpdatedReplicas (d_Status d) = desired \<longrightarrow> Status p = ConditionFalse) \<and>
           (UpdatedReplicas (d_Status d) \<noteq> desired \<longrightarrow>
              Status p = ConditionTrue \<and>
              Message p = Itoa (UpdatedReplicas (d_Status d)) @ '' out of '' @ Itoa desired
                @ '' pods running'')) \<and>
        (Replicas (d_Spec d) = None \<longrightarrow> Status p = []))"
  using assms
  by (cases rule: sync_cases[of w c]) (auto simp: deploymentProgressing_def)

theorem sync_progressing_condition_witness:
  "(UpdateStatusCall (deploymentAvailable example_live) (deploymentProgressing example_live)
      example_live example_hook \<in> set (fst (sync example_controller example_world)) \<and>
    ObservedGeneration (d_Status example_live) = Generation (d_ObjectMeta example_live) \<and>
    Replicas (d_Spec example_live) = Some 2 \<and>
    UpdatedReplicas (d_Status example_live) = 1 \<and>
    Status (deploymentProgressing example_live) = ConditionTrue \<and>
    Message (deploymentProgressing example_live) = ''1 out of 2 pods running'') \<and>
   (UpdateStatusCall (deploymentAvailable skew_live) (deploymentProgressing skew_live)
      skew_live example_hook \<in> set (fst (sync example_controller skew_world)) \<and>
    Generation (d_ObjectMeta skew_live) = 6 \<and>
    ObservedGeneration (d_Status skew_live) = 5 \<and>
    Status (deploymentProgressing skew_live) = ConditionTrue \<and>
    Message (deploymentProgressing skew_live) = ''desired generation 6, current generation 5'') \<and>
   (UpdateStatusCall (deploymentAvailable converged_live)
      (deploymentProgressing converged_live) converged_live example_hook
        \<in> set (fst (sync example_controller converged_world)) \<and>
    ObservedGeneration (d_Status converged_live) = Generation (d_ObjectMeta converged_live) \<and>
    Replicas (d_Spec converged_live) = Some 2 \<and>
    UpdatedReplicas (d_Status converged_live) = 2 \<and>
    Status (deploymentProgressing converged_live) = ConditionFalse)"
proof -
  have m1: "UpdateStatusCall (deploymentAvailable example_live)
      (deploymentProgressing example_live) example_live example_hook
        \<in> set (fst (sync example_controller example_world))"
    by (simp add: example_sync)
  have m2: "UpdateStatusCall (deploymentAvailable skew_live) (deploymentProgressing skew_live)
      skew_live example_hook \<in> set (fst (sync example_controller skew_world))"
    by (simp add: skew_sync)
  have m3: "UpdateStatusCall (deploymentAvailable converged_live)
      (deploymentProgressing converged_live) converged_live example_hook
        \<in> set (fst (sync example_controller converged_world))"
    by (simp add: converged_sync)
  have five_six: "Itoa 6 = ''6''" "Itoa 5 = ''5''"
    by (simp_all add: Itoa_def decimal.simps)
  from sync_progressing_condition[OF m1] sync_progressing_condition[OF m2]
    sync_progressing_condition[OF m3]
  show ?thesis
    using m1 m2 m3
    by (simp add: example_live_fields skew_live_fields converged_live_fields Itoa_small
        five_six)
qed

theorem progressing_unset_replicas_counterexample:
  "UpdateStatusCall (deploymentAvailable unset_live) (deploymentProgressing unset_live)
     unset_live example_hook \<in> set (fst (sync example_controller unset_world)) \<and>
   ObservedGeneration (d_Status unset_live) = Generation (d_ObjectMeta unset_live) \<and>
   Status (deploymentProgressing unset_live) \<noteq> ConditionFalse \<and>
   Status (deploymentProgressing unset_live) \<noteq> ConditionTrue"
  by (simp add: unset_sync unset_live_fields deploymentProgressing_def ConditionFalse_def
      ConditionTrue_def)

text \<open>
  C3. In every status update of \<^verbatim>\<open>sync\<close> the deployment is the live one that the apply
  returned, and the Available condition is True exactly when its AvailableReplicas is
  greater than 0; otherwise it is False with reason Deploying and a message. One available
  replica is enough, whatever replica count is desired.
\<close>

theorem sync_available_condition:
  assumes "UpdateStatusCall a p d h \<in> set (fst (sync c w))"
  shows "(\<exists>desired g. ApplyDeploymentCall desired g \<in> set (fst (sync c w)) \<and>
            ApplyDeployment w desired g = Inr d) \<and>
     (Status a = ConditionTrue) = (0 < AvailableReplicas (d_Status d)) \<and>
     (AvailableReplicas (d_Status d) = 1 \<longrightarrow> Status a = ConditionTrue) \<and>
     (\<not> 0 < AvailableReplicas (d_Status d) \<longrightarrow>
        Status a = ConditionFalse \<and> Reason a = ''Deploying'' \<and>
        Message a = ''Waiting for a validating webhook Deployment pod to start'')"
  using assms
  by (cases rule: sync_cases[of w c])
     (auto simp: deploymentAvailable_def ConditionTrue_def ConditionFalse_def)

theorem sync_available_condition_witness:
  "UpdateStatusCall (deploymentAvailable example_live) (deploymentProgressing example_live)
     example_live example_hook \<in> set (fst (sync example_controller example_world)) \<and>
   AvailableReplicas (d_Status example_live) = 1 \<and>
   Replicas (d_Spec example_live) = Some 2 \<and>
   Status (deploymentAvailable example_live) = ConditionTrue"
proof -
  have m: "UpdateStatusCall (deploymentAvailable example_live)
     (deploymentProgressing example_live) example_live example_hook
       \<in> set (fst (sync example_controller example_world))"
    by (simp add: example_sync)
  from sync_available_condition[OF m] show ?thesis
    using m by (simp add: example_live_fields)
qed

text \<open>
  C4, as amended. \<^verbatim>\<open>getDeployment\<close> returns an error exactly when the log level is not
  valid. Every template has a description by its pieces. For a valid log level the text
  given to the decoder is the template with the image string, as it is, in the place of
  every image placeholder, and after that the decimal verbosity in the place of every
  log level placeholder of the text so made. When in that text no log level placeholder
  begins within a literal text or within an image string that was put in, the decoder
  gets the template with the image string in the place of every image placeholder and
  the decimal verbosity in the place of every log level placeholder. The result is the
  deployment that the library decodes from the text (the library panics on a text that
  it cannot decode).
\<close>

theorem getDeployment_fills_template:
  "((\<exists>e. getDeployment c w opSpec = Err e) = (\<not> ValidLogLevel w (LogLevel opSpec))) \<and>
   (\<exists>qs. template_of qs = MustAsset w deploymentAsset \<and> describes qs) \<and>
   (ValidLogLevel w (LogLevel opSpec) \<and>
    template_of ps = MustAsset w deploymentAsset \<and> describes ps \<longrightarrow>
      getDeployment c w opSpec =
        (case ReadDeploymentV1OrDie w
                (ReplaceAll (rendered_text (csiSnapshotWebhookImage c) ''${LOG_LEVEL}'' ps)
                   ''${LOG_LEVEL}'' (Itoa (LogLevelToVerbosity w (LogLevel opSpec)))) of
           None \<Rightarrow> Panicked
         | Some deployment \<Rightarrow> Ok deployment)) \<and>
   (ValidLogLevel w (LogLevel opSpec) \<and>
    template_of ps = MustAsset w deploymentAsset \<and> describes ps \<and>
    untouched (csiSnapshotWebhookImage c) ps \<longrightarrow>
      getDeployment c w opSpec =
        (case ReadDeploymentV1OrDie w
                (rendered_text (csiSnapshotWebhookImage c)
                   (Itoa (LogLevelToVerbosity w (LogLevel opSpec))) ps) of
           None \<Rightarrow> Panicked
         | Some deployment \<Rightarrow> Ok deployment))"
proof -
  have error: "(\<exists>e. getDeployment c w opSpec = Err e) = (\<not> ValidLogLevel w (LogLevel opSpec))"
    by (simp add: getDeployment_def Let_def split: option.splits)
  have "template_of (pieces_of (MustAsset w deploymentAsset)) = MustAsset w deploymentAsset \<and>
      describes (pieces_of (MustAsset w deploymentAsset))"
    by (simp add: template_of_pieces_of describes_pieces_of)
  then have described: "\<exists>qs. template_of qs = MustAsset w deploymentAsset \<and> describes qs"
    by blast
  have first: "ValidLogLevel w (LogLevel opSpec) \<and>
    template_of ps = MustAsset w deploymentAsset \<and> describes ps \<longrightarrow>
      getDeployment c w opSpec =
        (case ReadDeploymentV1OrDie w
                (ReplaceAll (rendered_text (csiSnapshotWebhookImage c) ''${LOG_LEVEL}'' ps)
                   ''${LOG_LEVEL}'' (Itoa (LogLevelToVerbosity w (LogLevel opSpec)))) of
           None \<Rightarrow> Panicked
         | Some deployment \<Rightarrow> Ok deployment)"
  proof
    assume a: "ValidLogLevel w (LogLevel opSpec) \<and>
      template_of ps = MustAsset w deploymentAsset \<and> describes ps"
    then have "ReplaceAll (MustAsset w deploymentAsset) ''${WEBHOOK_IMAGE}''
        (csiSnapshotWebhookImage c)
      = rendered_text (csiSnapshotWebhookImage c) ''${LOG_LEVEL}'' ps"
      using first_pass[of ps "csiSnapshotWebhookImage c"] by simp
    with a show "getDeployment c w opSpec =
        (case ReadDeploymentV1OrDie w
                (ReplaceAll (rendered_text (csiSnapshotWebhookImage c) ''${LOG_LEVEL}'' ps)
                   ''${LOG_LEVEL}'' (Itoa (LogLevelToVerbosity w (LogLevel opSpec)))) of
           None \<Rightarrow> Panicked
         | Some deployment \<Rightarrow> Ok deployment)"
      by (simp add: getDeployment_def Let_def)
  qed
  have both: "ValidLogLevel w (LogLevel opSpec) \<and>
    template_of ps = MustAsset w deploymentAsset \<and> describes ps \<and>
    untouched (csiSnapshotWebhookImage c) ps \<longrightarrow>
      getDeployment c w opSpec =
        (case ReadDeploymentV1OrDie w
                (rendered_text (csiSnapshotWebhookImage c)
                   (Itoa (LogLevelToVerbosity w (LogLevel opSpec))) ps) of
           None \<Rightarrow> Panicked
         | Some deployment \<Rightarrow> Ok deployment)"
    using first by (simp add: second_pass)
  from error described first both show ?thesis by blast
qed

theorem getDeployment_fills_template_witness:
  "ValidLogLevel example_world (LogLevel example_spec) \<and>
   template_of example_pieces = MustAsset example_world deploymentAsset \<and>
   describes example_pieces \<and>
   untouched (csiSnapshotWebhookImage example_controller) example_pieces \<and>
   csiSnapshotWebhookImage example_controller = ''quay.io/snapshot-webhook:v1'' \<and>
   Itoa (LogLevelToVerbosity example_world (LogLevel example_spec)) = ''2'' \<and>
   getDeployment example_controller example_world example_spec
     = Ok (example_manifest ''quay.io/snapshot-webhook:v1'' ''2'') \<and>
   map Image (Containers (d_Spec (example_manifest ''quay.io/snapshot-webhook:v1'' ''2'')))
     = [''quay.io/snapshot-webhook:v1''] \<and>
   map Args (Containers (d_Spec (example_manifest ''quay.io/snapshot-webhook:v1'' ''2'')))
     = [[''--v=2'']] \<and>
   \<not> ValidLogLevel example_world (LogLevel (example_spec\<lparr>LogLevel := ''Verbose''\<rparr>)) \<and>
   getDeployment example_controller example_world (example_spec\<lparr>LogLevel := ''Verbose''\<rparr>)
     = Err (Errorf ''logLevel %q is not a valid log level'' ''Verbose'')"
proof -
  have img: "csiSnapshotWebhookImage example_controller = ''quay.io/snapshot-webhook:v1''"
    by (simp add: example_controller_def NewCSISnapshotWebhookController_def example_image_def)
  have u: "untouched (csiSnapshotWebhookImage example_controller) example_pieces"
    using example_untouched by (simp add: img example_image_def)
  have t: "template_of example_pieces = MustAsset example_world deploymentAsset"
    by (simp add: example_template)
  have n: "\<not> ValidLogLevel example_world (LogLevel (example_spec\<lparr>LogLevel := ''Verbose''\<rparr>))"
    by (simp add: example_world_def example_ValidLogLevel_def)
  from getDeployment_fills_template[of example_controller example_world example_spec
      example_pieces] example_level t example_describes u
  have "getDeployment example_controller example_world example_spec =
        (case ReadDeploymentV1OrDie example_world
                (rendered_text (csiSnapshotWebhookImage example_controller)
                   (Itoa (LogLevelToVerbosity example_world (LogLevel example_spec)))
                   example_pieces) of
           None \<Rightarrow> Panicked
         | Some deployment \<Rightarrow> Ok deployment)"
    by blast
  moreover have "ReadDeploymentV1OrDie example_world
      (rendered_text example_image ''2'' example_pieces)
        = Some (example_manifest example_image ''2'')"
    by (simp add: example_world_def example_decoder_values)
  ultimately have ok: "getDeployment example_controller example_world example_spec
     = Ok (example_manifest ''quay.io/snapshot-webhook:v1'' ''2'')"
    using img by (simp add: example_level example_image_def)
  from getDeployment_fills_template[of example_controller example_world
      "example_spec\<lparr>LogLevel := ''Verbose''\<rparr>" example_pieces] n
  have "\<exists>e. getDeployment example_controller example_world
      (example_spec\<lparr>LogLevel := ''Verbose''\<rparr>) = Err e"
    by blast
  then have err: "getDeployment example_controller example_world
      (example_spec\<lparr>LogLevel := ''Verbose''\<rparr>)
     = Err (Errorf ''logLevel %q is not a valid log level'' ''Verbose'')"
    by (auto simp: getDeployment_def Let_def split: if_splits option.splits)
  have fields: "map Image (Containers (d_Spec
        (example_manifest ''quay.io/snapshot-webhook:v1'' ''2'')))
     = [''quay.io/snapshot-webhook:v1''] \<and>
   map Args (Containers (d_Spec (example_manifest ''quay.io/snapshot-webhook:v1'' ''2'')))
     = [[''--v=2'']]"
    by (simp add: example_manifest_def)
  from example_level t example_describes u img ok n err fields show ?thesis by blast
qed

theorem getDeployment_placeholder_image_counterexample:
  "ValidLogLevel example_world (LogLevel example_spec) \<and>
   template_of example_pieces = MustAsset example_world deploymentAsset \<and>
   describes example_pieces \<and>
   csiSnapshotWebhookImage placeholder_controller = ''quay.io/snapshot-webhook:${LOG_LEVEL}'' \<and>
   getDeployment placeholder_controller example_world example_spec
     = Ok (example_manifest ''quay.io/snapshot-webhook:2'' ''2'') \<and>
   map Image (Containers (d_Spec (example_manifest ''quay.io/snapshot-webhook:2'' ''2'')))
     = [''quay.io/snapshot-webhook:2''] \<and>
   (case ReadDeploymentV1OrDie example_world
           (rendered_text (csiSnapshotWebhookImage placeholder_controller)
              (Itoa (LogLevelToVerbosity example_world (LogLevel example_spec)))
              example_pieces) of
      None \<Rightarrow> Panicked
    | Some deployment \<Rightarrow> Ok deployment)
     = Ok (example_manifest ''quay.io/snapshot-webhook:${LOG_LEVEL}'' ''2'') \<and>
   getDeployment placeholder_controller example_world example_spec \<noteq>
     (case ReadDeploymentV1OrDie example_world
             (rendered_text (csiSnapshotWebhookImage placeholder_controller)
                (Itoa (LogLevelToVerbosity example_world (LogLevel example_spec)))
                example_pieces) of
        None \<Rightarrow> Panicked
      | Some deployment \<Rightarrow> Ok deployment)"
proof -
  have img: "csiSnapshotWebhookImage placeholder_controller = placeholder_image"
    by (simp add: placeholder_controller_def NewCSISnapshotWebhookController_def)
  have claimed: "(case ReadDeploymentV1OrDie example_world
           (rendered_text (csiSnapshotWebhookImage placeholder_controller)
              (Itoa (LogLevelToVerbosity example_world (LogLevel example_spec)))
              example_pieces) of
      None \<Rightarrow> Panicked
    | Some deployment \<Rightarrow> Ok deployment)
     = Ok (example_manifest placeholder_image ''2'')"
    by (simp add: img example_level) (simp add: example_world_def example_decoder_values)
  have differ: "example_manifest rewritten_image ''2'' \<noteq> example_manifest placeholder_image ''2''"
    by (simp add: example_manifest_def rewritten_image_def placeholder_image_def)
  have fields: "map Image (Containers (d_Spec (example_manifest rewritten_image ''2'')))
     = [rewritten_image]"
    by (simp add: example_manifest_def)
  from example_level(1) example_template example_describes img placeholder_getDeployment
    claimed differ fields
  show ?thesis
    by (simp add: rewritten_image_def placeholder_image_def)
qed

text \<open>
  C5. When the operator configuration is not found, or is found with a management state
  other than Managed, \<^verbatim>\<open>sync\<close> reads the configuration and does nothing else: no apply
  call, no status update, and it returns nil.
\<close>

theorem sync_absent_or_unmanaged_is_quiet:
  assumes "(\<exists>e. GetOperatorState w = Inl e \<and> IsNotFound e) \<or>
     (\<exists>opSpec opStatus. GetOperatorState w = Inr (opSpec, opStatus) \<and>
        ManagementState opSpec \<noteq> Managed)"
  shows "snd (sync c w) = Return None \<and>
     filter isApplyCall (fst (sync c w)) = [] \<and>
     filter isUpdateStatusCall (fst (sync c w)) = [] \<and>
     fst (sync c w) = [GetOperatorStateCall]"
  using assms by (cases rule: sync_cases[of w c]) auto

theorem sync_absent_or_unmanaged_is_quiet_witness:
  "(GetOperatorState absent_world = Inl (NotFound ''cluster'') \<and>
    IsNotFound (NotFound ''cluster'') \<and>
    snd (sync example_controller absent_world) = Return None \<and>
    fst (sync example_controller absent_world) = [GetOperatorStateCall]) \<and>
   (GetOperatorState unmanaged_world =
      Inr (example_spec\<lparr>ManagementState := ''Unmanaged''\<rparr>, example_status) \<and>
    ManagementState (example_spec\<lparr>ManagementState := ''Unmanaged''\<rparr>) \<noteq> Managed \<and>
    snd (sync example_controller unmanaged_world) = Return None \<and>
    fst (sync example_controller unmanaged_world) = [GetOperatorStateCall])"
proof -
  have a: "GetOperatorState absent_world = Inl (NotFound ''cluster'') \<and>
    IsNotFound (NotFound ''cluster'')"
    by (simp add: absent_world_def)
  have u: "GetOperatorState unmanaged_world =
      Inr (example_spec\<lparr>ManagementState := ''Unmanaged''\<rparr>, example_status) \<and>
    ManagementState (example_spec\<lparr>ManagementState := ''Unmanaged''\<rparr>) \<noteq> Managed"
    by (simp add: unmanaged_world_def Managed_def)
  from a have "snd (sync example_controller absent_world) = Return None \<and>
     fst (sync example_controller absent_world) = [GetOperatorStateCall]"
    using sync_absent_or_unmanaged_is_quiet[of absent_world example_controller] by blast
  moreover from u have "snd (sync example_controller unmanaged_world) = Return None \<and>
     fst (sync example_controller unmanaged_world) = [GetOperatorStateCall]"
    using sync_absent_or_unmanaged_is_quiet[of unmanaged_world example_controller] by blast
  ultimately show ?thesis using a u by blast
qed

text \<open>
  C6. When the apply of the deployment succeeds and the apply of the webhook
  configuration fails, \<^verbatim>\<open>sync\<close> returns the error of that apply and makes no status
  update. A status update, with the generations it records, is the last call of a run,
  there is one at most, and it comes after both applies have succeeded, with the two
  objects that they returned.
\<close>

theorem sync_hook_failure_writes_no_status:
  "(ApplyDeploymentCall desired g \<in> set (fst (sync c w)) \<and>
    ApplyDeployment w desired g = Inr live \<and>
    ApplyValidatingWebhookConfigurationCall webhookConfig g' \<in> set (fst (sync c w)) \<and>
    ApplyValidatingWebhookConfiguration w webhookConfig g' = Inl e \<longrightarrow>
      snd (sync c w) = Return (Some e) \<and>
      filter isUpdateStatusCall (fst (sync c w)) = []) \<and>
   (UpdateStatusCall a p d h \<in> set (fst (sync c w)) \<longrightarrow>
      (\<exists>selector desired g webhookConfig g'.
         fst (sync c w) =
           [GetOperatorStateCall, ListCall selector, ApplyDeploymentCall desired g,
            ApplyValidatingWebhookConfigurationCall webhookConfig g',
            UpdateStatusCall a p d h] \<and>
         ApplyDeployment w desired g = Inr d \<and>
         ApplyValidatingWebhookConfiguration w webhookConfig g' = Inr h))"
  by (cases rule: sync_cases[of w c]) auto

theorem sync_hook_failure_writes_no_status_witness:
  "(ApplyDeploymentCall example_desired (- 1)
      \<in> set (fst (sync example_controller hook_refused_world)) \<and>
    ApplyDeployment hook_refused_world example_desired (- 1) = Inr example_live \<and>
    ApplyValidatingWebhookConfigurationCall example_hook (- 1)
      \<in> set (fst (sync example_controller hook_refused_world)) \<and>
    ApplyValidatingWebhookConfiguration hook_refused_world example_hook (- 1)
      = Inl (OtherError ''conflict'') \<and>
    snd (sync example_controller hook_refused_world) = Return (Some (OtherError ''conflict'')) \<and>
    filter isUpdateStatusCall (fst (sync example_controller hook_refused_world)) = []) \<and>
   (UpdateStatusCall (deploymentAvailable example_live) (deploymentProgressing example_live)
      example_live example_hook \<in> set (fst (sync example_controller example_world)) \<and>
    ApplyDeployment example_world example_desired (- 1) = Inr example_live \<and>
    ApplyValidatingWebhookConfiguration example_world example_hook (- 1) = Inr example_hook)"
proof -
  have pre: "ApplyDeploymentCall example_desired (- 1)
      \<in> set (fst (sync example_controller hook_refused_world)) \<and>
    ApplyDeployment hook_refused_world example_desired (- 1) = Inr example_live \<and>
    ApplyValidatingWebhookConfigurationCall example_hook (- 1)
      \<in> set (fst (sync example_controller hook_refused_world)) \<and>
    ApplyValidatingWebhookConfiguration hook_refused_world example_hook (- 1)
      = Inl (OtherError ''conflict'')"
    by (simp add: hook_refused_sync)
       (simp add: hook_refused_world_def example_world_def example_live_def)
  have m: "UpdateStatusCall (deploymentAvailable example_live)
      (deploymentProgressing example_live) example_live example_hook
        \<in> set (fst (sync example_controller example_world))"
    by (simp add: example_sync)
  have ok: "ApplyDeployment example_world example_desired (- 1) = Inr example_live \<and>
    ApplyValidatingWebhookConfiguration example_world example_hook (- 1) = Inr example_hook"
    by (simp add: example_world_def example_live_def)
  from pre
    sync_hook_failure_writes_no_status[of example_desired "- 1" example_controller
      hook_refused_world example_live example_hook "- 1" "OtherError ''conflict''"]
  have "snd (sync example_controller hook_refused_world) = Return (Some (OtherError ''conflict'')) \<and>
    filter isUpdateStatusCall (fst (sync example_controller hook_refused_world)) = []"
    by blast
  with pre m ok show ?thesis by blast
qed

text \<open>
  C8. The work queue of the controller plays no part in \<^verbatim>\<open>sync\<close>: with any other queue
  in the field \<^verbatim>\<open>sync\<close> makes the same calls and ends in the same way, and so does
  \<^verbatim>\<open>getDeployment\<close>; no call on the queue is among the calls of a run; the constructor
  is what creates the queue.
\<close>

theorem sync_never_uses_queue:
  "sync (c\<lparr>queue := q\<rparr>) w = sync c w \<and>
   getDeployment (c\<lparr>queue := q\<rparr>) w opSpec = getDeployment c w opSpec \<and>
   filter isQueueCall (fst (sync c w)) = [] \<and>
   queue (NewCSISnapshotWebhookController img) =
     NewNamedRateLimitingQueue ''csi-snapshot-controller''"
proof -
  have render: "getDeployment (c\<lparr>queue := q\<rparr>) w s = getDeployment c w s" for s
    by (simp add: getDeployment_def)
  have "sync (c\<lparr>queue := q\<rparr>) w = sync c w"
    unfolding sync_def render ..
  moreover have "filter isQueueCall (fst (sync c w)) = []"
    by (cases rule: sync_cases[of w c]) simp_all
  ultimately show ?thesis
    using render by (simp add: NewCSISnapshotWebhookController_def)
qed

theorem sync_never_uses_queue_witness:
  "items (queue busy_controller) = [''pending''] \<and>
   items (queue example_controller) = [] \<and>
   sync busy_controller example_world = sync example_controller example_world \<and>
   snd (sync busy_controller example_world) = Return None \<and>
   filter isQueueCall (fst (sync busy_controller example_world)) = []"
proof -
  have b: "busy_controller =
      example_controller\<lparr>queue := \<lparr>queueName = ''other'', items = [''pending'']\<rparr>\<rparr>"
    by (simp add: busy_controller_def)
  have "items (queue busy_controller) = [''pending''] \<and> items (queue example_controller) = []"
    by (simp add: busy_controller_def example_controller_def
        NewCSISnapshotWebhookController_def NewNamedRateLimitingQueue_def)
  moreover from
    sync_never_uses_queue[where c = example_controller
      and q = "\<lparr>queueName = ''other'', items = [''pending'']\<rparr>" and w = example_world]
  have "sync busy_controller example_world = sync example_controller example_world"
    by (simp add: b)
  ultimately show ?thesis
    by (simp add: example_sync)
qed

text \<open>
  C9. In every status update of \<^verbatim>\<open>sync\<close>: when the observed generation of the live
  deployment equals its generation and its \<^verbatim>\<open>Spec.Replicas\<close> is nil, the Progressing
  condition has an empty status, neither True nor False, no reason and no message.
\<close>

theorem sync_progressing_nil_replicas:
  assumes "UpdateStatusCall a p d h \<in> set (fst (sync c w))"
    and "ObservedGeneration (d_Status d) = Generation (d_ObjectMeta d)"
    and "Replicas (d_Spec d) = None"
  shows "Status p = [] \<and> Status p \<noteq> ConditionTrue \<and> Status p \<noteq> ConditionFalse \<and>
     Reason p = [] \<and> Message p = []"
  using assms
  by (cases rule: sync_cases[of w c])
     (auto simp: deploymentProgressing_def ConditionTrue_def ConditionFalse_def)

theorem sync_progressing_nil_replicas_witness:
  "UpdateStatusCall (deploymentAvailable unset_live) (deploymentProgressing unset_live)
     unset_live example_hook \<in> set (fst (sync example_controller unset_world)) \<and>
   ObservedGeneration (d_Status unset_live) = Generation (d_ObjectMeta unset_live) \<and>
   Replicas (d_Spec unset_live) = None \<and>
   Status (deploymentProgressing unset_live) = [] \<and>
   Reason (deploymentProgressing unset_live) = [] \<and>
   Message (deploymentProgressing unset_live) = []"
proof -
  have m: "UpdateStatusCall (deploymentAvailable unset_live) (deploymentProgressing unset_live)
     unset_live example_hook \<in> set (fst (sync example_controller unset_world))"
    by (simp add: unset_sync)
  have g: "ObservedGeneration (d_Status unset_live) = Generation (d_ObjectMeta unset_live)"
    by (simp add: unset_live_fields)
  have r: "Replicas (d_Spec unset_live) = None"
    by (simp add: unset_live_fields)
  from sync_progressing_nil_replicas[OF m g r] show ?thesis
    using m g r by simp
qed

text \<open>
  C10. In every status update of \<^verbatim>\<open>sync\<close> the two conditions are typed with the name of
  the controller followed by Available and by Progressing, never with the bare names.
\<close>

theorem sync_condition_types:
  assumes "UpdateStatusCall a p d h \<in> set (fst (sync c w))"
  shows "Type a = WebhookControllerName @ OperatorStatusTypeAvailable \<and>
     Type p = WebhookControllerName @ OperatorStatusTypeProgressing \<and>
     Type a = ''CSISnapshotWebhookControllerAvailable'' \<and>
     Type p = ''CSISnapshotWebhookControllerProgressing'' \<and>
     Type a \<noteq> ''Available'' \<and> Type p \<noteq> ''Progressing''"
  using assms
  by (cases rule: sync_cases[of w c])
     (auto simp: deploymentAvailable_def deploymentProgressing_def WebhookControllerName_def
        OperatorStatusTypeAvailable_def OperatorStatusTypeProgressing_def
        split: option.splits)

theorem sync_condition_types_witness:
  "UpdateStatusCall (deploymentAvailable example_live) (deploymentProgressing example_live)
     example_live example_hook \<in> set (fst (sync example_controller example_world)) \<and>
   Type (deploymentAvailable example_live) = ''CSISnapshotWebhookControllerAvailable'' \<and>
   Type (deploymentProgressing example_live) = ''CSISnapshotWebhookControllerProgressing''"
proof -
  have m: "UpdateStatusCall (deploymentAvailable example_live)
     (deploymentProgressing example_live) example_live example_hook
       \<in> set (fst (sync example_controller example_world))"
    by (simp add: example_sync)
  from sync_condition_types[OF m] show ?thesis
    using m by blast
qed

end
